theory Spec2Isabelle
  imports Complex_Main "HOL-Library.Sublist"
begin

section \<open>Python values, strings and exceptions\<close>

text \<open>
  The two functions of \<^verbatim>\<open>rag_model.py\<close> work on dynamically typed Python values.
  A \<open>pyobj\<close> is the part of that universe the functions can meet: the chat message is
  annotated \<^verbatim>\<open>str\<close> but nothing checks it, the context is an optional dictionary, and
  the classifier's result is a dictionary of booleans, floats, strings and a list.

  A Python \<^verbatim>\<open>str\<close> is a sequence of code points. The model keeps the code points below
  256 (one \<open>char\<close> each), which covers every literal of the source, the degree sign of
  the temperature sentence included. A float is kept as the decimal its literal is
  written as: the source stores float literals and never computes with them.
\<close>

datatype pyobj =
    PyNone
  | PyBool bool
  | PyInt int
  | PyFloat real
  | PyStr string
  | PyBytes string
  | PyList "pyobj list"
  | PyDict "(string \<times> pyobj) list"

text \<open>
  An exception is an instance of a class deriving from \<^verbatim>\<open>Exception\<close>, with the text
  that \<^verbatim>\<open>str(e)\<close> gives. A computation that may raise returns \<open>py_exception + 'a\<close>,
  \<open>Inl\<close> for the raise.
\<close>

datatype py_exception = PyException (exc_class: string) (exc_str: string)

fun type_name :: "pyobj \<Rightarrow> string" where
  "type_name PyNone = ''NoneType''"
| "type_name (PyBool _) = ''bool''"
| "type_name (PyInt _) = ''int''"
| "type_name (PyFloat _) = ''float''"
| "type_name (PyStr _) = ''str''"
| "type_name (PyBytes _) = ''bytes''"
| "type_name (PyList _) = ''list''"
| "type_name (PyDict _) = ''dict''"

definition quoted :: "string \<Rightarrow> string" where
  "quoted s = CHR 0x27 # s @ [CHR 0x27]"

text \<open>
  \<^verbatim>\<open>str.lower\<close> on code points below 256: the ASCII capitals and the Latin-1 capitals
  (U+00C0 to U+00DE, the multiplication sign U+00D7 apart) move up by 32, every other
  code point stays. \<^verbatim>\<open>bytes.lower\<close> changes the ASCII capitals only.
\<close>

definition lower_char :: "char \<Rightarrow> char" where
  "lower_char c =
     (let n = (of_char c :: nat) in
      if (65 \<le> n \<and> n \<le> 90) \<or> (192 \<le> n \<and> n \<le> 222 \<and> n \<noteq> 215)
      then char_of (n + 32) else c)"

definition str_lower :: "string \<Rightarrow> string" where
  "str_lower s = map lower_char s"

definition ascii_lower_char :: "char \<Rightarrow> char" where
  "ascii_lower_char c =
     (let n = (of_char c :: nat) in
      if 65 \<le> n \<and> n \<le> 90 then char_of (n + 32) else c)"

definition bytes_lower :: "string \<Rightarrow> string" where
  "bytes_lower s = map ascii_lower_char s"

text \<open>
  \<^verbatim>\<open>key in message\<close> on two strings: \<open>key\<close> occurs in \<open>message\<close> as a contiguous
  run of characters.
\<close>

definition str_in :: "string \<Rightarrow> string \<Rightarrow> bool" where
  "str_in key message = sublist key message"

text \<open>
  The method call \<^verbatim>\<open>x.lower()\<close> on an arbitrary value: only \<^verbatim>\<open>str\<close> and
  \<^verbatim>\<open>bytes\<close> have the method, every other value raises \<^verbatim>\<open>AttributeError\<close>.
  The test \<^verbatim>\<open>key in x\<close> with a \<^verbatim>\<open>str\<close> key: a substring test on a \<^verbatim>\<open>str\<close>,
  \<^verbatim>\<open>TypeError\<close> on \<^verbatim>\<open>bytes\<close>.
\<close>

fun call_lower :: "pyobj \<Rightarrow> py_exception + pyobj" where
  "call_lower (PyStr s) = Inr (PyStr (str_lower s))"
| "call_lower (PyBytes b) = Inr (PyBytes (bytes_lower b))"
| "call_lower v =
     Inl (PyException ''AttributeError''
            (quoted (type_name v) @ '' object has no attribute '' @ quoted ''lower''))"

fun key_in :: "string \<Rightarrow> pyobj \<Rightarrow> py_exception + bool" where
  "key_in key (PyStr s) = Inr (str_in key s)"
| "key_in key (PyBytes b) =
     Inl (PyException ''TypeError''
            (''a bytes-like object is required, not '' @ quoted ''str''))"
| "key_in key (PyList xs) = Inr (PyStr key \<in> set xs)"
| "key_in key (PyDict kvs) = Inr (key \<in> fst ` set kvs)"
| "key_in key v =
     Inl (PyException ''TypeError''
            (''argument of type '' @ quoted (type_name v) @ '' is not iterable''))"

section \<open>Response lookup: \<^verbatim>\<open>get_rag_response\<close>\<close>

text \<open>
  The dictionary literal \<^verbatim>\<open>responses\<close>, as an association list in the order the source
  writes it: a Python dictionary iterates in insertion order.
\<close>

definition responses :: "(string \<times> string) list" where
  "responses =
     [(''health'',
       ''The maize crop is showing good health metrics with optimal pH and humidity levels.''),
      (''water'',
       ''Current water levels are at 85%, which is within the optimal range for maize growth.''),
      (''nutrients'',
       ''Nutrient levels are at 72%. Consider adjusting nutrient delivery in the next 24 hours.''),
      (''growth'',
       ''The maize is growing at an optimal rate based on current environmental conditions.''),
      (''temperature'',
       ''Temperature is maintained at 23.5'' @ [CHR 0xB0] @
       ''C, which is ideal for maize cultivation.'')]"

definition default_response :: string where
  "default_response =
     ''I can help you with information about maize health, water levels, nutrients, growth, and temperature. What would you like to know?''"

definition apology :: string where
  "apology = ''I apologize, but I'' @ [CHR 0x27] @ ''m having trouble processing your request.''"

text \<open>
  The loop \<^verbatim>\<open>for key, response in responses.items()\<close>: the first entry whose key occurs
  in the message ends the loop with its response; \<open>None\<close> is the loop running to its end.
\<close>

fun scan_responses :: "(string \<times> string) list \<Rightarrow> pyobj \<Rightarrow> py_exception + string option" where
  "scan_responses [] message = Inr None"
| "scan_responses ((key, response) # rest) message =
     (case key_in key message of
        Inl e \<Rightarrow> Inl e
      | Inr True \<Rightarrow> Inr (Some response)
      | Inr False \<Rightarrow> scan_responses rest message)"

text \<open>The body of the \<^verbatim>\<open>try\<close> block. The context is a parameter, as in the source.\<close>

definition rag_try_body :: "pyobj \<Rightarrow> pyobj \<Rightarrow> py_exception + string" where
  "rag_try_body user_message context =
     (case call_lower user_message of
        Inl e \<Rightarrow> Inl e
      | Inr message \<Rightarrow>
          (case scan_responses responses message of
             Inl e \<Rightarrow> Inl e
           | Inr (Some response) \<Rightarrow> Inr response
           | Inr None \<Rightarrow> Inr default_response))"

text \<open>
  The function with its handler \<^verbatim>\<open>except Exception as e\<close>. The handler first prints a
  diagnostic line with \<^verbatim>\<open>str(e)\<close> and then returns the apology. Writing to standard
  output is a call into the environment and can itself raise (the stream is closed, or
  its encoding has no byte for a character of the line); the handler does not guard it, so
  such an exception leaves the function. The parameter \<open>print\<close> is that call: it gives
  \<open>Inr ()\<close> when the line is written and \<open>Inl\<close> the exception otherwise.
\<close>

definition get_rag_response ::
  "(string \<Rightarrow> py_exception + unit) \<Rightarrow> pyobj \<Rightarrow> pyobj \<Rightarrow> py_exception + string" where
  "get_rag_response print user_message context =
     (case rag_try_body user_message context of
        Inl e \<Rightarrow>
          (case print (''Error generating response: '' @ exc_str e) of
             Inl print_error \<Rightarrow> Inl print_error
           | Inr _ \<Rightarrow> Inr apology)
      | Inr response \<Rightarrow> Inr response)"

section \<open>Image classifier: \<^verbatim>\<open>analyze_maize_image\<close>\<close>

text \<open>
  What the vision service answers, as the client library types it: the tags with their
  names, the captions of the description with their texts, each with the score the service
  gives it, the detected objects and the request identifier. The source reads the tag
  names and the text of the first caption.
\<close>

record image_tag =
  tag_name :: string
  tag_confidence :: real

record image_caption =
  caption_text :: string
  caption_confidence :: real

record image_analysis =
  analysis_tags :: "image_tag list"
  description_captions :: "image_caption list"
  analysis_objects :: "string list"
  request_id :: string

text \<open>\<^verbatim>\<open>sep.join(parts)\<close> on a list of strings.\<close>

fun join :: "string \<Rightarrow> string list \<Rightarrow> string" where
  "join sep [] = []"
| "join sep [x] = x"
| "join sep (x # y # ys) = x @ sep @ join sep (y # ys)"

text \<open>
  The two entries of the dictionary literal \<^verbatim>\<open>disease_indicators\<close>, which the source
  reads at the constant keys \<^verbatim>\<open>'spotted'\<close> and \<^verbatim>\<open>'blighted'\<close> only.
\<close>

definition disease_indicators_spotted :: "string list" where
  "disease_indicators_spotted =
     [''spot'', ''spots'', ''spotted'', ''lesion'', ''lesions'', ''brown'', ''yellow'']"

definition disease_indicators_blighted :: "string list" where
  "disease_indicators_blighted =
     [''blight'', ''blighted'', ''wilted'', ''dying'', ''diseased'', ''disease'', ''infected'']"

text \<open>\<^verbatim>\<open>any(indicator in text_to_check for indicator in indicators)\<close>.\<close>

primrec any_indicator_in :: "string list \<Rightarrow> string \<Rightarrow> bool" where
  "any_indicator_in [] text_to_check = False"
| "any_indicator_in (indicator # rest) text_to_check =
     (if str_in indicator text_to_check then True else any_indicator_in rest text_to_check)"

text \<open>
  The chain \<^verbatim>\<open>if / elif / else\<close> that sets \<^verbatim>\<open>health_status\<close> and \<^verbatim>\<open>confidence\<close>;
  the pair is the two variables after it.
\<close>

definition classify :: "string \<Rightarrow> string \<times> real" where
  "classify text_to_check =
     (if any_indicator_in disease_indicators_blighted text_to_check then (''Blighted'', 0.99)
      else if any_indicator_in disease_indicators_spotted text_to_check then (''Spotted'', 0.99)
      else (''Healthy'', 0.99))"

text \<open>
  The three values the source extracts before it classifies: the lowercased tag names,
  the text of the first caption (the empty string when there is no caption), and the
  search string \<^verbatim>\<open>' '.join(tags + [description.lower()])\<close>.
\<close>

definition lowered_tag_names :: "image_analysis \<Rightarrow> string list" where
  "lowered_tag_names analysis = map (\<lambda>tag. str_lower (tag_name tag)) (analysis_tags analysis)"

definition first_caption_text :: "image_analysis \<Rightarrow> string" where
  "first_caption_text analysis =
     (case description_captions analysis of
        [] \<Rightarrow> []
      | caption # _ \<Rightarrow> caption_text caption)"

definition text_to_check :: "string list \<Rightarrow> string \<Rightarrow> string" where
  "text_to_check tags description = join '' '' (tags @ [str_lower description])"

text \<open>
  The body of the \<^verbatim>\<open>try\<close> block. Its two calls into the environment are parameters:
  \<open>image_save\<close> is \<^verbatim>\<open>image.save(img_byte_array, format='JPEG')\<close>, which gives the encoded
  bytes or raises, and \<open>analyze_image_in_stream\<close> is the call to the vision service on
  those bytes, which gives an analysis or raises; \<open>img\<close> is the argument \<^verbatim>\<open>image\<close>.
  The result is the dictionary the source builds.
\<close>

definition analyze_try_body ::
  "('img \<Rightarrow> py_exception + 'bytes) \<Rightarrow> ('bytes \<Rightarrow> py_exception + image_analysis) \<Rightarrow> 'img
     \<Rightarrow> py_exception + (string \<rightharpoonup> pyobj)" where
  "analyze_try_body image_save analyze_image_in_stream img =
     (case image_save img of
        Inl e \<Rightarrow> Inl e
      | Inr img_byte_array \<Rightarrow>
          (case analyze_image_in_stream img_byte_array of
             Inl e \<Rightarrow> Inl e
           | Inr analysis \<Rightarrow>
               (let tags = lowered_tag_names analysis;
                    description = first_caption_text analysis;
                    (health_status, confidence) = classify (text_to_check tags description)
                in Inr [''success'' \<mapsto> PyBool True,
                        ''health_status'' \<mapsto> PyStr health_status,
                        ''confidence'' \<mapsto> PyFloat confidence,
                        ''description'' \<mapsto>
                          PyStr (''Leaf appears to be '' @ str_lower health_status),
                        ''tags'' \<mapsto> PyList (map PyStr tags),
                        ''raw_description'' \<mapsto> PyStr description])))"

text \<open>
  The function with its handler \<^verbatim>\<open>except Exception as e\<close>, which prints a diagnostic
  line with \<^verbatim>\<open>str(e)\<close> and then returns the failure dictionary with \<^verbatim>\<open>str(e)\<close>. The
  parameter \<open>print\<close> is the write to standard output, as above: when it raises, its
  exception leaves the function.
\<close>

definition analyze_maize_image ::
  "(string \<Rightarrow> py_exception + unit) \<Rightarrow> ('img \<Rightarrow> py_exception + 'bytes)
     \<Rightarrow> ('bytes \<Rightarrow> py_exception + image_analysis) \<Rightarrow> 'img
     \<Rightarrow> py_exception + (string \<rightharpoonup> pyobj)" where
  "analyze_maize_image print image_save analyze_image_in_stream img =
     (case analyze_try_body image_save analyze_image_in_stream img of
        Inl e \<Rightarrow>
          (case print (''Error analyzing image: '' @ exc_str e) of
             Inl print_error \<Rightarrow> Inl print_error
           | Inr _ \<Rightarrow>
               Inr [''success'' \<mapsto> PyBool False, ''error'' \<mapsto> PyStr (exc_str e)])
      | Inr result \<Rightarrow> Inr result)"

section \<open>Evaluation and basic facts\<close>

text \<open>Rules that evaluate the string functions on literals.\<close>

lemmas lower_eval =
  str_lower_def lower_char_def bytes_lower_def ascii_lower_char_def char_of_def
  bit_Suc_0_iff Let_def

lemmas in_eval = str_in_def sublist_code prefix_code

text \<open>
  The test \<^verbatim>\<open>key in message.lower()\<close> is the case-insensitive one: the key occurs in
  the lowered message exactly when some run of characters of the message lowers to it.
\<close>

lemma str_in_lower_iff:
  "str_in key (str_lower s) \<longleftrightarrow> (\<exists>t. sublist t s \<and> str_lower t = key)"
  unfolding str_in_def str_lower_def by (metis map_mono_sublist sublist_map_rightE)

lemma any_indicator_in_iff:
  "any_indicator_in ks t \<longleftrightarrow> (\<exists>k\<in>set ks. str_in k t)"
  by (induction ks) auto

lemma classify_cases:
  "classify t = (''Blighted'', 0.99) \<or> classify t = (''Spotted'', 0.99)
     \<or> classify t = (''Healthy'', 0.99)"
  by (simp add: classify_def)

text \<open>The three ways a call of the classifier can go, and what it returns in each.\<close>

lemma analyze_cases:
  obtains (save_raises) e where "image_save img = Inl e"
  | (service_raises) b e where "image_save img = Inr b" "analyze_image_in_stream b = Inl e"
  | (returns) b a where "image_save img = Inr b" "analyze_image_in_stream b = Inr a"
  by (cases "image_save img"; cases "analyze_image_in_stream (projr (image_save img))") auto

lemma analyze_try_body_raises_iff:
  "analyze_try_body image_save analyze_image_in_stream img = Inl e \<longleftrightarrow>
     image_save img = Inl e
     \<or> (\<exists>img_byte_array. image_save img = Inr img_byte_array
           \<and> analyze_image_in_stream img_byte_array = Inl e)"
  by (auto simp: analyze_try_body_def Let_def split_def split: sum.splits)


lemma analyze_raised_print_raises:
  assumes "analyze_try_body image_save analyze_image_in_stream img = Inl e"
    and "print (''Error analyzing image: '' @ exc_str e) = Inl print_error"
  shows "analyze_maize_image print image_save analyze_image_in_stream img = Inl print_error"
  using assms by (simp add: analyze_maize_image_def)

lemma analyze_raised_result:
  assumes "analyze_try_body image_save analyze_image_in_stream img = Inl e"
    and "analyze_maize_image print image_save analyze_image_in_stream img = Inr result"
  shows "result = [''success'' \<mapsto> PyBool False, ''error'' \<mapsto> PyStr (exc_str e)]"
  using assms by (auto simp: analyze_maize_image_def split: sum.splits)

lemma analyze_success:
  assumes "image_save img = Inr img_byte_array"
    and "analyze_image_in_stream img_byte_array = Inr analysis"
  shows "analyze_maize_image print image_save analyze_image_in_stream img =
     Inr [''success'' \<mapsto> PyBool True,
          ''health_status'' \<mapsto>
            PyStr (fst (classify (text_to_check (lowered_tag_names analysis)
                                     (first_caption_text analysis)))),
          ''confidence'' \<mapsto>
            PyFloat (snd (classify (text_to_check (lowered_tag_names analysis)
                                       (first_caption_text analysis)))),
          ''description'' \<mapsto>
            PyStr (''Leaf appears to be '' @
              str_lower (fst (classify (text_to_check (lowered_tag_names analysis)
                                          (first_caption_text analysis))))),
          ''tags'' \<mapsto> PyList (map PyStr (lowered_tag_names analysis)),
          ''raw_description'' \<mapsto> PyStr (first_caption_text analysis)]"
  using assms
  by (simp add: analyze_maize_image_def analyze_try_body_def split_def Let_def)

text \<open>On a string the loop over \<open>responses\<close> finds the first entry whose key occurs in it.\<close>

lemma scan_responses_str:
  "scan_responses rs (PyStr m) = Inr (map_option snd (find (\<lambda>(key, response). str_in key m) rs))"
  by (induction rs) (auto split: bool.splits)

text \<open>
  With no caption the search string is the joined tags followed by one space, and a
  trailing space changes no keyword test: no keyword is empty or contains a space.
\<close>

lemma join_snoc_empty:
  "join sep (xs @ [[]]) = (if xs = [] then [] else join sep xs @ sep)"
  by (induction sep xs rule: join.induct) auto

lemma sublist_snoc_other:
  assumes "key \<noteq> []" and "c \<notin> set key"
  shows "sublist key (t @ [c]) \<longleftrightarrow> sublist key t"
proof
  assume "sublist key (t @ [c])"
  then consider "sublist key t" | "sublist key [c]"
    | xs1 xs2 where "key = xs1 @ xs2" "suffix xs1 t" "prefix xs2 [c]"
    by (auto simp: sublist_append)
  then show "sublist key t"
  proof cases
    case 1 then show ?thesis .
  next
    case 2
    then have "key = [] \<or> key = [c]" by (cases key) (auto simp: sublist_Cons_right)
    with assms show ?thesis by auto
  next
    case 3
    from 3(3) have "xs2 = [] \<or> xs2 = [c]" by (cases xs2) auto
    with 3 assms show ?thesis by auto
  qed
next
  assume "sublist key t" then show "sublist key (t @ [c])" by (simp add: sublist_append)
qed

lemma any_indicator_in_trailing_space:
  assumes "\<forall>k\<in>set ks. k \<noteq> [] \<and> CHR '' '' \<notin> set k"
  shows "any_indicator_in ks (t @ '' '') = any_indicator_in ks t"
  using assms by (induction ks) (auto simp: str_in_def sublist_snoc_other)

lemma classify_trailing_space: "classify (t @ '' '') = classify t"
proof -
  have b: "any_indicator_in disease_indicators_blighted (t @ '' '')
             = any_indicator_in disease_indicators_blighted t"
    by (rule any_indicator_in_trailing_space) (simp add: disease_indicators_blighted_def)
  have s: "any_indicator_in disease_indicators_spotted (t @ '' '')
             = any_indicator_in disease_indicators_spotted t"
    by (rule any_indicator_in_trailing_space) (simp add: disease_indicators_spotted_def)
  show ?thesis unfolding classify_def b s ..
qed

lemma classify_no_caption:
  "classify (text_to_check tags []) = classify (join '' '' tags)"
  by (simp add: text_to_check_def str_lower_def join_snoc_empty classify_trailing_space)

section \<open>Properties of the image classifier\<close>

text \<open>
  C2: whenever the search string built from the lowercased tags and the lowercased first
  caption contains a blight keyword, \<open>analyze_maize_image\<close> yields the label "Blighted".
  Nothing is assumed about spot keywords or about where the keyword stands in the text.
\<close>

theorem blight_precedence:
  assumes "image_save img = Inr img_byte_array"
    and "analyze_image_in_stream img_byte_array = Inr analysis"
    and "indicator \<in> set disease_indicators_blighted"
    and "str_in indicator (text_to_check (lowered_tag_names analysis) (first_caption_text analysis))"
  shows "\<exists>result. analyze_maize_image print image_save analyze_image_in_stream img = Inr result
           \<and> result ''success'' = Some (PyBool True)
           \<and> result ''health_status'' = Some (PyStr ''Blighted'')"
proof -
  have "any_indicator_in disease_indicators_blighted
          (text_to_check (lowered_tag_names analysis) (first_caption_text analysis))"
    using assms(3,4) any_indicator_in_iff by blast
  then have "classify (text_to_check (lowered_tag_names analysis) (first_caption_text analysis))
               = (''Blighted'', 0.99)"
    by (simp add: classify_def)
  then show ?thesis
    using analyze_success[of image_save img img_byte_array analyze_image_in_stream analysis print] assms(1,2) by simp
qed

theorem blight_precedence_witness:
  "''diseased'' \<in> set disease_indicators_blighted
   \<and> ''yellow'' \<in> set disease_indicators_spotted
   \<and> text_to_check
        (lowered_tag_names
           \<lparr>analysis_tags = [\<lparr>tag_name = ''Yellow'', tag_confidence = 0.9\<rparr>,
                             \<lparr>tag_name = ''plant'', tag_confidence = 0.8\<rparr>],
            description_captions = [\<lparr>caption_text = ''A Diseased leaf'', caption_confidence = 0.5\<rparr>],
            analysis_objects = [], request_id = ''r2''\<rparr>)
        (first_caption_text
           \<lparr>analysis_tags = [\<lparr>tag_name = ''Yellow'', tag_confidence = 0.9\<rparr>,
                             \<lparr>tag_name = ''plant'', tag_confidence = 0.8\<rparr>],
            description_captions = [\<lparr>caption_text = ''A Diseased leaf'', caption_confidence = 0.5\<rparr>],
            analysis_objects = [], request_id = ''r2''\<rparr>)
       = ''yellow plant a diseased leaf''
   \<and> (\<exists>result.
         analyze_maize_image (\<lambda>line. Inr ()) (\<lambda>i::unit. Inr ''jpeg'')
           (\<lambda>b::string.
              Inr \<lparr>analysis_tags = [\<lparr>tag_name = ''Yellow'', tag_confidence = 0.9\<rparr>,
                                    \<lparr>tag_name = ''plant'', tag_confidence = 0.8\<rparr>],
                   description_captions = [\<lparr>caption_text = ''A Diseased leaf'', caption_confidence = 0.5\<rparr>],
                   analysis_objects = [], request_id = ''r2''\<rparr>)
           () = Inr result
         \<and> result ''success'' = Some (PyBool True)
         \<and> result ''health_status'' = Some (PyStr ''Blighted''))"
proof -
  let ?a = "\<lparr>analysis_tags = [\<lparr>tag_name = ''Yellow'', tag_confidence = 0.9\<rparr>,
                             \<lparr>tag_name = ''plant'', tag_confidence = 0.8\<rparr>],
            description_captions = [\<lparr>caption_text = ''A Diseased leaf'', caption_confidence = 0.5\<rparr>],
            analysis_objects = [], request_id = ''r2''\<rparr>"
  let ?print = "\<lambda>line::string. (Inr () :: py_exception + unit)"
  let ?save = "\<lambda>i::unit. (Inr ''jpeg'' :: py_exception + string)"
  let ?svc = "\<lambda>b::string. (Inr ?a :: py_exception + image_analysis)"
  have a: "?save () = Inr ''jpeg''" by simp
  have b: "?svc ''jpeg'' = Inr ?a" by simp
  have c: "''diseased'' \<in> set disease_indicators_blighted"
    by (simp add: disease_indicators_blighted_def)
  have c': "''yellow'' \<in> set disease_indicators_spotted"
    by (simp add: disease_indicators_spotted_def)
  have t: "text_to_check (lowered_tag_names ?a) (first_caption_text ?a) = ''yellow plant a diseased leaf''"
    by (simp add: text_to_check_def lowered_tag_names_def first_caption_text_def lower_eval)
  have d: "str_in ''diseased'' (text_to_check (lowered_tag_names ?a) (first_caption_text ?a))"
    unfolding t by (simp add: in_eval)
  from blight_precedence[of ?save "()" "''jpeg''" ?svc ?a "''diseased''" ?print, OF a b c d] c c' t
  show ?thesis by simp
qed

text \<open>
  C3: every successful classification (a result with \<open>success = True\<close>) carries the
  confidence 0.99, whichever of the three labels Blighted, Spotted, Healthy it carries
  and however many keywords matched.
\<close>

theorem confidence_constant:
  assumes "analyze_maize_image print image_save analyze_image_in_stream img = Inr result"
    and "result ''success'' = Some (PyBool True)"
  shows "result ''confidence'' = Some (PyFloat 0.99)
       \<and> result ''health_status''
           \<in> {Some (PyStr ''Blighted''), Some (PyStr ''Spotted''), Some (PyStr ''Healthy'')}"
proof (cases rule: analyze_cases[where image_save = image_save and img = img
         and analyze_image_in_stream = analyze_image_in_stream])
  case (save_raises e)
  then have "analyze_try_body image_save analyze_image_in_stream img = Inl e"
    by (simp add: analyze_try_body_raises_iff)
  from analyze_raised_result[OF this assms(1)] assms(2) show ?thesis by simp
next
  case (service_raises b e)
  then have "analyze_try_body image_save analyze_image_in_stream img = Inl e"
    by (simp add: analyze_try_body_raises_iff)
  from analyze_raised_result[OF this assms(1)] assms(2) show ?thesis by simp
next
  case (returns b a)
  let ?c = "classify (text_to_check (lowered_tag_names a) (first_caption_text a))"
  have conf: "result ''confidence'' = Some (PyFloat (snd ?c))"
    and stat: "result ''health_status'' = Some (PyStr (fst ?c))"
    using assms(1) returns by (auto simp: analyze_success)
  from classify_cases[of "text_to_check (lowered_tag_names a) (first_caption_text a)"]
  show ?thesis unfolding conf stat by auto
qed

theorem confidence_constant_witness:
  "\<exists>result.
     analyze_maize_image (\<lambda>line. Inr ()) (\<lambda>i::unit. Inr ''jpeg'')
       (\<lambda>b::string.
          Inr \<lparr>analysis_tags = [\<lparr>tag_name = ''Plant'', tag_confidence = 0.97\<rparr>,
                                \<lparr>tag_name = ''brown'', tag_confidence = 0.41\<rparr>],
               description_captions = [], analysis_objects = [], request_id = ''r1''\<rparr>)
       () = Inr result
     \<and> result ''success'' = Some (PyBool True)
     \<and> result ''confidence'' = Some (PyFloat 0.99)
     \<and> result ''health_status'' = Some (PyStr ''Spotted'')"
proof -
  let ?print = "\<lambda>line::string. (Inr () :: py_exception + unit)"
  let ?save = "\<lambda>i::unit. (Inr ''jpeg'' :: py_exception + string)"
  let ?svc = "\<lambda>b::string.
     (Inr \<lparr>analysis_tags = [\<lparr>tag_name = ''Plant'', tag_confidence = 0.97\<rparr>,
                             \<lparr>tag_name = ''brown'', tag_confidence = 0.41\<rparr>],
            description_captions = [], analysis_objects = [], request_id = ''r1''\<rparr>
        :: py_exception + image_analysis)"
  obtain result where r: "analyze_maize_image ?print ?save ?svc () = Inr result"
    by (simp add: analyze_maize_image_def analyze_try_body_def Let_def split_def)
  have s: "result ''success'' = Some (PyBool True)"
    using r by (auto simp: analyze_maize_image_def analyze_try_body_def Let_def split_def)
  have h: "result ''health_status'' = Some (PyStr ''Spotted'')"
    using r
    by (auto simp: analyze_maize_image_def analyze_try_body_def Let_def split_def
        classify_def text_to_check_def lowered_tag_names_def first_caption_text_def
        disease_indicators_blighted_def disease_indicators_spotted_def lower_eval in_eval)
  from confidence_constant[OF r s] r s h show ?thesis by blast
qed




text \<open>
  C6: whenever the search string contains no blight keyword and no spot keyword,
  \<open>analyze_maize_image\<close> returns \<open>success = True\<close> with the label "Healthy" and the
  confidence 0.99.
\<close>

theorem healthy_when_no_keyword:
  assumes "image_save img = Inr img_byte_array"
    and "analyze_image_in_stream img_byte_array = Inr analysis"
    and "\<forall>indicator\<in>set disease_indicators_blighted.
           \<not> str_in indicator
               (text_to_check (lowered_tag_names analysis) (first_caption_text analysis))"
    and "\<forall>indicator\<in>set disease_indicators_spotted.
           \<not> str_in indicator
               (text_to_check (lowered_tag_names analysis) (first_caption_text analysis))"
  shows "\<exists>result. analyze_maize_image print image_save analyze_image_in_stream img = Inr result
           \<and> result ''success'' = Some (PyBool True)
           \<and> result ''health_status'' = Some (PyStr ''Healthy'')
           \<and> result ''confidence'' = Some (PyFloat 0.99)"
proof -
  have "classify (text_to_check (lowered_tag_names analysis) (first_caption_text analysis))
          = (''Healthy'', 0.99)"
    using assms(3,4) by (simp add: classify_def any_indicator_in_iff)
  then show ?thesis
    using analyze_success[of image_save img img_byte_array analyze_image_in_stream analysis print]
      assms(1,2)
    by simp
qed

theorem healthy_when_no_keyword_witness:
  "text_to_check
     (lowered_tag_names
        \<lparr>analysis_tags = [\<lparr>tag_name = ''Maize'', tag_confidence = 0.9\<rparr>,
                          \<lparr>tag_name = ''Green'', tag_confidence = 0.8\<rparr>],
         description_captions = [\<lparr>caption_text = ''A Green Leaf'', caption_confidence = 0.5\<rparr>],
         analysis_objects = [], request_id = ''r4''\<rparr>)
     (first_caption_text
        \<lparr>analysis_tags = [\<lparr>tag_name = ''Maize'', tag_confidence = 0.9\<rparr>,
                          \<lparr>tag_name = ''Green'', tag_confidence = 0.8\<rparr>],
         description_captions = [\<lparr>caption_text = ''A Green Leaf'', caption_confidence = 0.5\<rparr>],
         analysis_objects = [], request_id = ''r4''\<rparr>)
     = ''maize green a green leaf''
   \<and> \<not> any_indicator_in disease_indicators_blighted ''maize green a green leaf''
   \<and> \<not> any_indicator_in disease_indicators_spotted ''maize green a green leaf''
   \<and> (\<exists>result.
         analyze_maize_image (\<lambda>line. Inr ()) (\<lambda>i::unit. Inr ''jpeg'')
           (\<lambda>b::string.
              Inr \<lparr>analysis_tags = [\<lparr>tag_name = ''Maize'', tag_confidence = 0.9\<rparr>,
                                    \<lparr>tag_name = ''Green'', tag_confidence = 0.8\<rparr>],
                   description_captions =
                     [\<lparr>caption_text = ''A Green Leaf'', caption_confidence = 0.5\<rparr>],
                   analysis_objects = [], request_id = ''r4''\<rparr>)
           () = Inr result
         \<and> result ''success'' = Some (PyBool True)
         \<and> result ''health_status'' = Some (PyStr ''Healthy'')
         \<and> result ''confidence'' = Some (PyFloat 0.99))"
proof -
  let ?a = "\<lparr>analysis_tags = [\<lparr>tag_name = ''Maize'', tag_confidence = 0.9\<rparr>,
                          \<lparr>tag_name = ''Green'', tag_confidence = 0.8\<rparr>],
         description_captions = [\<lparr>caption_text = ''A Green Leaf'', caption_confidence = 0.5\<rparr>],
         analysis_objects = [], request_id = ''r4''\<rparr>"
  let ?print = "\<lambda>line::string. (Inr () :: py_exception + unit)"
  let ?save = "\<lambda>i::unit. (Inr ''jpeg'' :: py_exception + string)"
  let ?svc = "\<lambda>b::string. (Inr ?a :: py_exception + image_analysis)"
  have a: "?save () = Inr ''jpeg''" by simp
  have b: "?svc ''jpeg'' = Inr ?a" by simp
  have t: "text_to_check (lowered_tag_names ?a) (first_caption_text ?a)
             = ''maize green a green leaf''"
    by (simp add: text_to_check_def lowered_tag_names_def first_caption_text_def lower_eval)
  have c: "\<forall>indicator\<in>set disease_indicators_blighted.
             \<not> str_in indicator ''maize green a green leaf''"
    by (simp add: disease_indicators_blighted_def in_eval)
  have d: "\<forall>indicator\<in>set disease_indicators_spotted.
             \<not> str_in indicator ''maize green a green leaf''"
    by (simp add: disease_indicators_spotted_def in_eval)
  from healthy_when_no_keyword[of ?save "()" "''jpeg''" ?svc ?a ?print, OF a b] c d t
  show ?thesis by (simp add: any_indicator_in_iff)
qed

text \<open>
  C9: two calls on the same image for which the vision service returns the same tag names
  and the same caption texts produce the same result, whatever else the two answers differ
  in (scores, detected objects, request identifier) and whatever standard output does
  in each call.
\<close>

theorem same_service_output_same_result:
  assumes "image_save img = Inr img_byte_array"
    and "service1 img_byte_array = Inr analysis1"
    and "service2 img_byte_array = Inr analysis2"
    and "map tag_name (analysis_tags analysis1) = map tag_name (analysis_tags analysis2)"
    and "map caption_text (description_captions analysis1)
           = map caption_text (description_captions analysis2)"
  shows "analyze_maize_image print1 image_save service1 img
           = analyze_maize_image print2 image_save service2 img"
proof -
  have "map (str_lower \<circ> tag_name) (analysis_tags analysis1)
          = map (str_lower \<circ> tag_name) (analysis_tags analysis2)"
    using assms(4) by (metis map_map)
  then have tags: "lowered_tag_names analysis1 = lowered_tag_names analysis2"
    by (simp add: lowered_tag_names_def comp_def)
  have cap: "first_caption_text analysis1 = first_caption_text analysis2"
    using assms(5) by (auto simp: first_caption_text_def split: list.splits)
  show ?thesis
    using analyze_success[of image_save img img_byte_array service1 analysis1 print1]
      analyze_success[of image_save img img_byte_array service2 analysis2 print2] assms(1-3)
    by (simp add: tags cap)
qed

theorem same_service_output_same_result_witness:
  "map tag_name
     (analysis_tags
        \<lparr>analysis_tags = [\<lparr>tag_name = ''Leaf'', tag_confidence = 0.9\<rparr>],
         description_captions = [\<lparr>caption_text = ''a brown leaf'', caption_confidence = 0.5\<rparr>],
         analysis_objects = [], request_id = ''first''\<rparr>)
   = map tag_name
       (analysis_tags
          \<lparr>analysis_tags = [\<lparr>tag_name = ''Leaf'', tag_confidence = 0.7\<rparr>],
           description_captions = [\<lparr>caption_text = ''a brown leaf'', caption_confidence = 0.3\<rparr>],
           analysis_objects = [''plant''], request_id = ''second''\<rparr>)
   \<and> analyze_maize_image (\<lambda>line. Inr ()) (\<lambda>i::unit. Inr ''jpeg'')
         (\<lambda>b::string.
            Inr \<lparr>analysis_tags = [\<lparr>tag_name = ''Leaf'', tag_confidence = 0.9\<rparr>],
                 description_captions =
                   [\<lparr>caption_text = ''a brown leaf'', caption_confidence = 0.5\<rparr>],
                 analysis_objects = [], request_id = ''first''\<rparr>)
         ()
     = analyze_maize_image (\<lambda>line. Inr ()) (\<lambda>i::unit. Inr ''jpeg'')
         (\<lambda>b::string.
            Inr \<lparr>analysis_tags = [\<lparr>tag_name = ''Leaf'', tag_confidence = 0.7\<rparr>],
                 description_captions =
                   [\<lparr>caption_text = ''a brown leaf'', caption_confidence = 0.3\<rparr>],
                 analysis_objects = [''plant''], request_id = ''second''\<rparr>)
         ()"
proof -
  let ?a1 = "\<lparr>analysis_tags = [\<lparr>tag_name = ''Leaf'', tag_confidence = 0.9\<rparr>],
         description_captions = [\<lparr>caption_text = ''a brown leaf'', caption_confidence = 0.5\<rparr>],
         analysis_objects = [], request_id = ''first''\<rparr>"
  let ?a2 = "\<lparr>analysis_tags = [\<lparr>tag_name = ''Leaf'', tag_confidence = 0.7\<rparr>],
           description_captions = [\<lparr>caption_text = ''a brown leaf'', caption_confidence = 0.3\<rparr>],
           analysis_objects = [''plant''], request_id = ''second''\<rparr>"
  let ?print = "\<lambda>line::string. (Inr () :: py_exception + unit)"
  let ?save = "\<lambda>i::unit. (Inr ''jpeg'' :: py_exception + string)"
  let ?svc1 = "\<lambda>b::string. (Inr ?a1 :: py_exception + image_analysis)"
  let ?svc2 = "\<lambda>b::string. (Inr ?a2 :: py_exception + image_analysis)"
  have a: "?save () = Inr ''jpeg''" by simp
  have b1: "?svc1 ''jpeg'' = Inr ?a1" by simp
  have b2: "?svc2 ''jpeg'' = Inr ?a2" by simp
  have t: "map tag_name (analysis_tags ?a1) = map tag_name (analysis_tags ?a2)" by simp
  have c: "map caption_text (description_captions ?a1)
             = map caption_text (description_captions ?a2)" by simp
  from same_service_output_same_result[of ?save "()" "''jpeg''" ?svc1 ?a1 ?svc2 ?a2 ?print ?print,
      OF a b1 b2 t c] t
  show ?thesis by simp
qed

text \<open>
  C10: when the vision service returns an empty list of captions, \<open>analyze_maize_image\<close>
  does not fail: the result has \<open>success = True\<close>, its \<open>raw_description\<close> is the empty
  string, and its label is the one the classification gives on the joined tags alone.
\<close>

theorem empty_captions_do_not_fail:
  assumes "image_save img = Inr img_byte_array"
    and "analyze_image_in_stream img_byte_array = Inr analysis"
    and "description_captions analysis = []"
  shows "\<exists>result. analyze_maize_image print image_save analyze_image_in_stream img = Inr result
           \<and> result ''success'' = Some (PyBool True)
           \<and> result ''raw_description'' = Some (PyStr [])
           \<and> result ''health_status''
               = Some (PyStr (fst (classify (join '' '' (lowered_tag_names analysis)))))"
proof -
  have "first_caption_text analysis = []"
    using assms(3) by (simp add: first_caption_text_def)
  then show ?thesis
    using analyze_success[of image_save img img_byte_array analyze_image_in_stream analysis print]
      assms(1,2)
    by (simp add: classify_no_caption)
qed

theorem empty_captions_do_not_fail_witness:
  "description_captions
     \<lparr>analysis_tags = [\<lparr>tag_name = ''Leaf'', tag_confidence = 0.9\<rparr>,
                       \<lparr>tag_name = ''Wilted'', tag_confidence = 0.6\<rparr>],
      description_captions = [], analysis_objects = [''plant''], request_id = ''r3''\<rparr> = []
   \<and> (\<exists>result.
         analyze_maize_image (\<lambda>line. Inr ()) (\<lambda>i::unit. Inr ''jpeg'')
           (\<lambda>b::string.
              Inr \<lparr>analysis_tags = [\<lparr>tag_name = ''Leaf'', tag_confidence = 0.9\<rparr>,
                                    \<lparr>tag_name = ''Wilted'', tag_confidence = 0.6\<rparr>],
                   description_captions = [], analysis_objects = [''plant''],
                   request_id = ''r3''\<rparr>)
           () = Inr result
         \<and> result ''success'' = Some (PyBool True)
         \<and> result ''raw_description'' = Some (PyStr [])
         \<and> result ''health_status'' = Some (PyStr ''Blighted''))"
proof -
  let ?a = "\<lparr>analysis_tags = [\<lparr>tag_name = ''Leaf'', tag_confidence = 0.9\<rparr>,
                       \<lparr>tag_name = ''Wilted'', tag_confidence = 0.6\<rparr>],
      description_captions = [], analysis_objects = [''plant''], request_id = ''r3''\<rparr>"
  let ?print = "\<lambda>line::string. (Inr () :: py_exception + unit)"
  let ?save = "\<lambda>i::unit. (Inr ''jpeg'' :: py_exception + string)"
  let ?svc = "\<lambda>b::string. (Inr ?a :: py_exception + image_analysis)"
  have a: "?save () = Inr ''jpeg''" by simp
  have b: "?svc ''jpeg'' = Inr ?a" by simp
  have c: "description_captions ?a = []" by simp
  have d: "fst (classify (join '' '' (lowered_tag_names ?a))) = ''Blighted''"
    by (simp add: classify_def lowered_tag_names_def disease_indicators_blighted_def
        lower_eval in_eval)
  from empty_captions_do_not_fail[of ?save "()" "''jpeg''" ?svc ?a ?print, OF a b c] c
  show ?thesis unfolding d by simp
qed

section \<open>Properties of the response lookup\<close>

text \<open>
  C1, as the claim states it, fails: a message that contains "water" and also "health"
  gets the health sentence, since \<^verbatim>\<open>"health"\<close> is the first key of \<open>responses\<close>.
\<close>

theorem water_counterexample:
  "str_in ''water'' (str_lower ''Water or health?'')
   \<and> get_rag_response (\<lambda>line. Inr ()) (PyStr ''Water or health?'') PyNone =
       Inr ''The maize crop is showing good health metrics with optimal pH and humidity levels.''
   \<and> get_rag_response (\<lambda>line. Inr ()) (PyStr ''Water or health?'') PyNone \<noteq>
       Inr ''Current water levels are at 85%, which is within the optimal range for maize growth.''"
  by (simp add: get_rag_response_def rag_try_body_def responses_def lower_eval in_eval)

text \<open>
  C1, amended: for every input string that contains "water" (case-insensitive, anywhere)
  and does not contain "health" (case-insensitive), \<open>get_rag_response\<close> returns the fixed
  water sentence, whether or not "nutrients", "growth" or "temperature" are also present.
\<close>

theorem water_unless_health:
  assumes "str_in ''water'' (str_lower s)" and "\<not> str_in ''health'' (str_lower s)"
  shows "get_rag_response print (PyStr s) context =
     Inr ''Current water levels are at 85%, which is within the optimal range for maize growth.''"
  using assms by (simp add: get_rag_response_def rag_try_body_def responses_def)

theorem water_unless_health_witness:
  "str_in ''water'' (str_lower ''what about WATER and nutrients'')
   \<and> \<not> str_in ''health'' (str_lower ''what about WATER and nutrients'')
   \<and> str_in ''nutrients'' (str_lower ''what about WATER and nutrients'')
   \<and> get_rag_response (\<lambda>line. Inr ()) (PyStr ''what about WATER and nutrients'') PyNone =
     Inr ''Current water levels are at 85%, which is within the optimal range for maize growth.''"
proof -
  have a: "str_in ''water'' (str_lower ''what about WATER and nutrients'')"
    by (simp add: lower_eval in_eval)
  have b: "\<not> str_in ''health'' (str_lower ''what about WATER and nutrients'')"
    by (simp add: lower_eval in_eval)
  have c: "str_in ''nutrients'' (str_lower ''what about WATER and nutrients'')"
    by (simp add: lower_eval in_eval)
  from water_unless_health[OF a b, of "\<lambda>line. Inr ()" PyNone] a b c show ?thesis by simp
qed

text \<open>
  C5: for every message and any two contexts, the absent context \<open>PyNone\<close> included,
  \<open>get_rag_response\<close> gives the same result, whatever standard output does: the context
  is not read.
\<close>

theorem context_not_read:
  "get_rag_response print user_message c1 = get_rag_response print user_message c2"
  by (simp add: get_rag_response_def rag_try_body_def)




text \<open>
  C8: for every input string whose lowercased form contains none of the five keys
  "health", "water", "nutrients", "growth", "temperature", \<open>get_rag_response\<close> returns
  the fixed fallback prompt.
\<close>

theorem fallback_when_no_key:
  assumes "\<not> str_in ''health'' (str_lower s)"
    and "\<not> str_in ''water'' (str_lower s)"
    and "\<not> str_in ''nutrients'' (str_lower s)"
    and "\<not> str_in ''growth'' (str_lower s)"
    and "\<not> str_in ''temperature'' (str_lower s)"
  shows "get_rag_response print (PyStr s) context = Inr default_response"
  using assms by (simp add: get_rag_response_def rag_try_body_def responses_def)

theorem fallback_when_no_key_witness:
  "\<not> str_in ''health'' (str_lower ''hello there'')
   \<and> \<not> str_in ''water'' (str_lower ''hello there'')
   \<and> \<not> str_in ''nutrients'' (str_lower ''hello there'')
   \<and> \<not> str_in ''growth'' (str_lower ''hello there'')
   \<and> \<not> str_in ''temperature'' (str_lower ''hello there'')
   \<and> get_rag_response (\<lambda>line. Inr ()) (PyStr ''hello there'') PyNone =
     Inr ''I can help you with information about maize health, water levels, nutrients, growth, and temperature. What would you like to know?''"
proof -
  have a: "\<not> str_in ''health'' (str_lower ''hello there'')" by (simp add: lower_eval in_eval)
  have b: "\<not> str_in ''water'' (str_lower ''hello there'')" by (simp add: lower_eval in_eval)
  have c: "\<not> str_in ''nutrients'' (str_lower ''hello there'')" by (simp add: lower_eval in_eval)
  have d: "\<not> str_in ''growth'' (str_lower ''hello there'')" by (simp add: lower_eval in_eval)
  have e: "\<not> str_in ''temperature'' (str_lower ''hello there'')" by (simp add: lower_eval in_eval)
  from fallback_when_no_key[OF a b c d e, of "\<lambda>line. Inr ()" PyNone] a b c d e show ?thesis
    by (simp add: default_response_def)
qed

end
